theory Spec2Isabelle
  imports Main "HOL-Library.Word" "HOL-Library.AList"
begin

section \<open>Data model\<close>

text \<open>
  The embedding follows \<^verbatim>\<open>cache.go\<close> (\<^verbatim>\<open>read\<close>, \<^verbatim>\<open>write\<close>, \<^verbatim>\<open>store\<close>, \<^verbatim>\<open>key\<close>,
  \<^verbatim>\<open>Do\<close>), the entry model (\<^verbatim>\<open>cacheEntry\<close>, \<^verbatim>\<open>asHttpResponse\<close>, \<^verbatim>\<open>expired\<close>), the
  context flags, the sentinel errors, \<^verbatim>\<open>DefaultKeyGenerator\<close> and the memory
  provider.

  \<^item> A Go \<^verbatim>\<open>map\<close> that the code ranges over is an association list read through
    \<open>map_of\<close>; a Go map has each key once.
  \<^item> \<^verbatim>\<open>[]byte\<close> is a list of 8-bit words, and a slice that may be \<^verbatim>\<open>nil\<close> is an
    option of one.
  \<^item> An instant of \<^verbatim>\<open>time.Time\<close> is an integer, and \<^verbatim>\<open>Before\<close> is \<open><\<close> on it. The
    readings of \<^verbatim>\<open>time.Now()\<close> that a call of \<^verbatim>\<open>Do\<close> decides on and stores (in
    \<^verbatim>\<open>expired\<close>, and for the \<^verbatim>\<open>Ts\<close> of a new entry) are one instant, \<open>now\<close>; the
    readings for the elapsed time of the log event are left out.
  \<^item> The provider, the transport, \<^verbatim>\<open>json.Marshal\<close>, \<^verbatim>\<open>json.Unmarshal\<close> and
    \<^verbatim>\<open>time.Parse\<close> are parameters: the engine is verified for all of them.
  \<^item> Header maps and response bodies are taken non-nil, as \<^verbatim>\<open>http.NewRequest\<close> and
    a transport that follows \<^verbatim>\<open>net/http\<close> produce them.
  \<^item> Of the log event of a call only its cache tag is kept; the logger returns
    nothing to the engine.
\<close>

type_synonym byte = "8 word"
type_synonym bytes = "byte list"
type_synonym time = int

subsection \<open>Errors\<close>

text \<open>
  The three sentinels of \<^verbatim>\<open>err.go\<close>; \<open>errors_New\<close> is any other error value made by
  \<^verbatim>\<open>errors.New\<close> or by \<^verbatim>\<open>fmt.Errorf\<close> without \<^verbatim>\<open>%w\<close> (here or in a collaborator);
  \<open>fmt_Errorf m e\<close> is \<^verbatim>\<open>fmt.Errorf(m + "%w", e)\<close>. A run-time panic is kept apart
  from a returned error.
\<close>

datatype error =
    ErrCacheExpired
  | ErrCacheExpiryIgnored
  | ErrCacheMiss
  | errors_New string
  | fmt_Errorf string error

datatype failure = Error error | Panic string

fun errors_Is :: "error \<Rightarrow> error \<Rightarrow> bool" where
  "errors_Is (fmt_Errorf m e) target =
     (fmt_Errorf m e = target \<or> errors_Is e target)"
| "errors_Is e target = (e = target)"

subsection \<open>Context flags\<close>

datatype contextKey =
    contextKeyIgnoreExpired
  | contextKeyIgnoreCache
  | contextKeyOnlyCached

text \<open>
  A context is the chain of \<^verbatim>\<open>context.WithValue\<close> layers, the newest first;
  the empty chain is \<^verbatim>\<open>context.Background()\<close>.
\<close>

type_synonym ctx = "(contextKey \<times> bool) list"

definition WithIgnoreExpired :: "ctx \<Rightarrow> bool \<Rightarrow> ctx" where
  "WithIgnoreExpired c shouldIgnore = (contextKeyIgnoreExpired, shouldIgnore) # c"

definition IgnoreExpired :: "ctx \<Rightarrow> bool" where
  "IgnoreExpired c =
     (case map_of c contextKeyIgnoreExpired of None \<Rightarrow> False | Some v \<Rightarrow> v)"

definition WithIgnoreCache :: "ctx \<Rightarrow> bool \<Rightarrow> ctx" where
  "WithIgnoreCache c shouldIgnore = (contextKeyIgnoreCache, shouldIgnore) # c"

definition IgnoreCache :: "ctx \<Rightarrow> bool" where
  "IgnoreCache c =
     (case map_of c contextKeyIgnoreCache of None \<Rightarrow> False | Some v \<Rightarrow> v)"

definition WithOnlyCached :: "ctx \<Rightarrow> bool \<Rightarrow> ctx" where
  "WithOnlyCached c shouldOnly = (contextKeyOnlyCached, shouldOnly) # c"

definition OnlyCached :: "ctx \<Rightarrow> bool" where
  "OnlyCached c =
     (case map_of c contextKeyOnlyCached of None \<Rightarrow> False | Some v \<Rightarrow> v)"

subsection \<open>Requests, responses and entries\<close>

type_synonym header = "(string \<times> string list) list"

text \<open>
  \<^verbatim>\<open>Header.Set\<close> replaces the values of a key by the one value. It canonicalises
  the key first; the three keys the engine sets (\<^verbatim>\<open>If-None-Match\<close>, \<^verbatim>\<open>Expires\<close>,
  \<^verbatim>\<open>Last-Modified\<close>) are already canonical.
\<close>

definition Header_Set :: "header \<Rightarrow> string \<Rightarrow> string \<Rightarrow> header" where
  "Header_Set h k v = AList.update k [v] h"

record request =
  Method :: string
  URL :: string
  Header :: header
  Ctx :: ctx

text \<open>
  A body is what reading it to the end gives: its bytes, or the error of a broken
  stream.
\<close>

datatype body = Reader bytes | BrokenReader error

fun ReadAll :: "body \<Rightarrow> error + bytes" where
  "ReadAll (Reader bs) = Inr bs"
| "ReadAll (BrokenReader e) = Inl e"

record response =
  resp_StatusCode :: int
  resp_Body :: body
  resp_Header :: header
  resp_Request :: "request option"
  resp_ContentLength :: int

record cacheEntry =
  Ts :: time
  StatusCode :: int
  Data :: bytes
  Headers :: "(string \<times> string) list"

definition asHttpResponse :: "cacheEntry \<Rightarrow> request \<Rightarrow> response" where
  "asHttpResponse e req =
     \<lparr> resp_StatusCode = StatusCode e,
       resp_Body = Reader (Data e),
       resp_Header = map (\<lambda>(k, v). (k, [v])) (Headers e),
       resp_Request = Some req,
       resp_ContentLength = int (length (Data e)) \<rparr>"

text \<open>
  \<^verbatim>\<open>expired\<close>: \<open>parse\<close> is \<^verbatim>\<open>time.Parse(time.RFC1123, _)\<close> and \<open>now\<close> the reading of
  \<^verbatim>\<open>time.Now()\<close>.
\<close>

definition expired :: "(string \<Rightarrow> time option) \<Rightarrow> time \<Rightarrow> cacheEntry \<Rightarrow> bool" where
  "expired parse now e =
     (case map_of (Headers e) ''Expires'' of
        None \<Rightarrow> True
      | Some expiry \<Rightarrow>
          (case parse expiry of
             None \<Rightarrow> True
           | Some expires \<Rightarrow> expires < now))"

subsection \<open>Collaborators and the world\<close>

datatype cacheStat =
    cacheStatExpired
  | cacheStatHit
  | cacheStatIgnoreCheck
  | cacheStatIgnored
  | cacheStatIgnoredExpiry
  | cacheStatMiss

text \<open>
  The calls the engine makes on its collaborators, in order: \<^verbatim>\<open>Provider.Get\<close> with
  its key, \<^verbatim>\<open>Provider.Set\<close> with its key, value and expiry and with the error it
  returned, and the transport's \<^verbatim>\<open>Do\<close> with the request it is given and with what
  it returned.
\<close>

datatype call =
    ProviderGet string
  | ProviderSet string bytes int "error option"
  | HttpDo request "error + response"

record ('p, 't) world =
  provider :: 'p
  httpClient :: 't
  calls :: "call list"

text \<open>
  The \<^verbatim>\<open>Cache\<close> struct with the behaviour of what it holds: the provider's two
  methods and the transport's \<^verbatim>\<open>Do\<close> over their own states, the key generator
  (\<open>None\<close> is \<^verbatim>\<open>nil\<close>), and the library functions the engine calls. A provider's
  \<^verbatim>\<open>Get\<close> returns a slice that may be \<^verbatim>\<open>nil\<close> (\<open>None\<close>).
\<close>

record ('p, 't) Cache =
  provider_Get :: "'p \<Rightarrow> ctx \<Rightarrow> string \<Rightarrow> (error + bytes option) \<times> 'p"
  provider_Set :: "'p \<Rightarrow> ctx \<Rightarrow> string \<Rightarrow> bytes \<Rightarrow> int \<Rightarrow> error option \<times> 'p"
  HttpClient_Do :: "'t \<Rightarrow> request \<Rightarrow> (error + response) \<times> 't"
  KeyGenerator :: "(request \<Rightarrow> string) option"
  json_Marshal :: "cacheEntry \<Rightarrow> error + bytes"
  json_Unmarshal :: "bytes \<Rightarrow> cacheEntry option"
  time_Parse :: "string \<Rightarrow> time option"

definition len :: "bytes option \<Rightarrow> nat" where
  "len v = (case v of None \<Rightarrow> 0 | Some bs \<Rightarrow> length bs)"

section \<open>The engine\<close>

definition DefaultKeyGenerator :: "request \<Rightarrow> string" where
  "DefaultKeyGenerator req = URL req"

definition key :: "('p, 't) Cache \<Rightarrow> request \<Rightarrow> string" where
  "key r req =
     (case KeyGenerator r of
        None \<Rightarrow> DefaultKeyGenerator req
      | Some g \<Rightarrow> g req)"

text \<open>
  The three calls on the collaborators. Each runs the collaborator on its state and
  adds itself to the calls of the world.
\<close>

definition call_Get ::
  "('p, 't) Cache \<Rightarrow> ctx \<Rightarrow> string \<Rightarrow> ('p, 't) world
     \<Rightarrow> (error + bytes option) \<times> ('p, 't) world" where
  "call_Get r c k w =
     (case provider_Get r (provider w) c k of
        (res, p') \<Rightarrow> (res, w\<lparr>provider := p', calls := calls w @ [ProviderGet k]\<rparr>))"

definition call_Set ::
  "('p, 't) Cache \<Rightarrow> ctx \<Rightarrow> string \<Rightarrow> bytes \<Rightarrow> int \<Rightarrow> ('p, 't) world
     \<Rightarrow> error option \<times> ('p, 't) world" where
  "call_Set r c k v expiry w =
     (case provider_Set r (provider w) c k v expiry of
        (res, p') \<Rightarrow> (res, w\<lparr>provider := p', calls := calls w @ [ProviderSet k v expiry res]\<rparr>))"

definition call_Do ::
  "('p, 't) Cache \<Rightarrow> request \<Rightarrow> ('p, 't) world
     \<Rightarrow> (error + response) \<times> ('p, 't) world" where
  "call_Do r req w =
     (case HttpClient_Do r (httpClient w) req of
        (res, t') \<Rightarrow> (res, w\<lparr>httpClient := t', calls := calls w @ [HttpDo req res]\<rparr>))"

text \<open>
  \<^verbatim>\<open>read\<close> returns a pair of an entry pointer and an error, and both can be set.
  Where \<open>len v\<close> is not zero the slice \<open>v\<close> is not \<^verbatim>\<open>nil\<close>, and \<open>the v\<close> are its bytes.
\<close>

definition read ::
  "('p, 't) Cache \<Rightarrow> time \<Rightarrow> ctx \<Rightarrow> string \<Rightarrow> ('p, 't) world
     \<Rightarrow> (cacheEntry option \<times> error option) \<times> ('p, 't) world" where
  "read r now c k w =
     (case call_Get r c k w of
        (Inl err, w') \<Rightarrow> ((None, Some (fmt_Errorf ''provider.Get(): '' err)), w')
      | (Inr v, w') \<Rightarrow>
          if len v = 0 then ((None, None), w')
          else
            (case json_Unmarshal r (the v) of
               None \<Rightarrow> ((None, None), w')
             | Some entry \<Rightarrow>
                 if expired (time_Parse r) now entry then
                   (if IgnoreExpired c then ((Some entry, Some ErrCacheExpiryIgnored), w')
                    else ((Some entry, Some ErrCacheExpired), w'))
                 else ((Some entry, None), w')))"

text \<open>\<^verbatim>\<open>write\<close> (the name is taken in Isabelle): the expiry it passes is the literal 0.\<close>

definition write_entry ::
  "('p, 't) Cache \<Rightarrow> ctx \<Rightarrow> string \<Rightarrow> cacheEntry \<Rightarrow> ('p, 't) world
     \<Rightarrow> error option \<times> ('p, 't) world" where
  "write_entry r c k entry w =
     (case json_Marshal r entry of
        Inl err \<Rightarrow> (Some (fmt_Errorf ''json.Marshal(): '' err), w)
      | Inr dataBytes \<Rightarrow>
          (case call_Set r c k dataBytes 0 w of
             (Some err, w') \<Rightarrow> (Some (fmt_Errorf ''provider.Set(): '' err), w')
           | (None, w') \<Rightarrow> (None, w')))"

text \<open>
  \<^verbatim>\<open>store\<close>: the body is read to its end, the entry is built from the status, the
  bytes and the first value of each header, and written. \<^verbatim>\<open>v[0]\<close> on a header with no
  value is an index out of range, before anything is written.
\<close>

definition store ::
  "('p, 't) Cache \<Rightarrow> time \<Rightarrow> ctx \<Rightarrow> string \<Rightarrow> response \<Rightarrow> ('p, 't) world
     \<Rightarrow> (failure + cacheEntry) \<times> ('p, 't) world" where
  "store r now c k resp w =
     (case ReadAll (resp_Body resp) of
        Inl err \<Rightarrow> (Inl (Error (fmt_Errorf ''io.ReadAll(): '' err)), w)
      | Inr bs \<Rightarrow>
          if list_ex (\<lambda>(k, v). v = []) (resp_Header resp)
          then (Inl (Panic ''index out of range [0] with length 0''), w)
          else
            (let e = \<lparr> Ts = now, StatusCode = resp_StatusCode resp, Data = bs,
                       Headers = map (\<lambda>(k, v). (k, hd v)) (resp_Header resp) \<rparr>
             in case write_entry r c k e w of
                  (Some err, w') \<Rightarrow> (Inl (Error (fmt_Errorf ''r.write(): '' err)), w')
                | (None, w') \<Rightarrow> (Inr e, w')))"

text \<open>
  The request that goes out: the caller's, with the entry's \<^verbatim>\<open>ETag\<close> as
  \<^verbatim>\<open>If-None-Match\<close> when an entry is at hand and its tag is not empty (the
  \<^verbatim>\<open>find ETAG\<close> block of \<^verbatim>\<open>Do\<close>, which sets the header on the caller's request).
\<close>

definition revalidation :: "cacheEntry option \<Rightarrow> request \<Rightarrow> request" where
  "revalidation entry req =
     (case entry of
        None \<Rightarrow> req
      | Some e \<Rightarrow>
          (case map_of (Headers e) ''ETag'' of
             None \<Rightarrow> req
           | Some etag \<Rightarrow>
               if etag \<noteq> [] then
                 req\<lparr>Header := Header_Set (Header req) ''If-None-Match'' etag\<rparr>
               else req))"

text \<open>
  \<^verbatim>\<open>Do\<close> from the \<^verbatim>\<open>OnlyCached\<close> check to its end, with the entry and the cache tag
  that the first half leaves. The result is what \<^verbatim>\<open>Do\<close> returns (a response, an
  error, or a panic), the cache tag of the log event (\<open>None\<close> is the empty tag), and
  the world after the call. After a 304 the error of \<^verbatim>\<open>write\<close> goes to the log event
  only.
\<close>

definition Do_fetch ::
  "('p, 't) Cache \<Rightarrow> time \<Rightarrow> request \<Rightarrow> string \<Rightarrow> cacheEntry option
     \<Rightarrow> cacheStat option \<Rightarrow> ('p, 't) world
     \<Rightarrow> (failure + response) \<times> cacheStat option \<times> ('p, 't) world" where
  "Do_fetch r now req k entry stat w =
     (if OnlyCached (Ctx req) then
        (case entry of
           None \<Rightarrow> (Inl (Error ErrCacheMiss), Some cacheStatIgnoreCheck, w)
         | Some e \<Rightarrow> (Inr (asHttpResponse e req), Some cacheStatIgnoreCheck, w))
      else
        (let req' = revalidation entry req
         in case call_Do r req' w of
              (Inl err, w1) \<Rightarrow> (Inl (Error (fmt_Errorf ''http.Do(): '' err)), stat, w1)
            | (Inr resp, w1) \<Rightarrow>
                if resp_StatusCode resp = 304 then
                  (case entry of
                     None \<Rightarrow>
                       (Inl (Error (errors_New ''no cached entry to return'')), stat, w1)
                   | Some e \<Rightarrow>
                       (let h1 = (case map_of (Headers e) ''Expires'' of
                                    None \<Rightarrow> resp_Header resp
                                  | Some expires \<Rightarrow>
                                      Header_Set (resp_Header resp) ''Expires'' expires);
                            h2 = (case map_of (Headers e) ''Last-Modified'' of
                                    None \<Rightarrow> h1
                                  | Some lastModified \<Rightarrow>
                                      Header_Set h1 ''Last-Modified'' lastModified)
                        in case write_entry r (Ctx req) k e w1 of
                             (_, w2) \<Rightarrow>
                               (Inr (resp\<lparr>resp_Header := h2, resp_Body := Reader (Data e)\<rparr>),
                                stat, w2)))
                else
                  (case store r now (Ctx req) k resp w1 of
                     (Inl (Error err), w2) \<Rightarrow>
                       (Inl (Error (fmt_Errorf ''r.store(): '' err)), stat, w2)
                   | (Inl (Panic m), w2) \<Rightarrow> (Inl (Panic m), stat, w2)
                   | (Inr e, w2) \<Rightarrow> (Inr (asHttpResponse e req'), stat, w2))))"

text \<open>
  \<^verbatim>\<open>Do\<close>. A method other than GET goes to the transport as it is. The error of
  \<^verbatim>\<open>read\<close> is tested with \<^verbatim>\<open>errors.Is\<close>, which looks through the wrapping of a
  provider's error; calling \<^verbatim>\<open>asHttpResponse\<close> through a nil entry pointer is a nil
  dereference.
\<close>

definition Do ::
  "('p, 't) Cache \<Rightarrow> time \<Rightarrow> request \<Rightarrow> ('p, 't) world
     \<Rightarrow> (failure + response) \<times> cacheStat option \<times> ('p, 't) world" where
  "Do r now req w =
     (if Method req \<noteq> ''GET'' then
        (case call_Do r req w of
           (Inl err, w') \<Rightarrow> (Inl (Error err), None, w')
         | (Inr resp, w') \<Rightarrow> (Inr resp, None, w'))
      else
        (let k = key r req in
         if IgnoreCache (Ctx req) then
           Do_fetch r now req k None (Some cacheStatIgnored) w
         else
           (case read r now (Ctx req) k w of
              ((entry, rerr), w') \<Rightarrow>
                (case rerr of
                   Some err \<Rightarrow>
                     if errors_Is err ErrCacheExpired then
                       Do_fetch r now req k entry (Some cacheStatExpired) w'
                     else if errors_Is err ErrCacheExpiryIgnored then
                       (case entry of
                          None \<Rightarrow>
                            (Inl (Panic ''nil pointer dereference''),
                             Some cacheStatIgnoredExpiry, w')
                        | Some e \<Rightarrow>
                            (Inr (asHttpResponse e req), Some cacheStatIgnoredExpiry, w'))
                     else (Inl (Error err), None, w')
                 | None \<Rightarrow>
                     (case entry of
                        Some e \<Rightarrow> (Inr (asHttpResponse e req), Some cacheStatHit, w')
                      | None \<Rightarrow> Do_fetch r now req k None (Some cacheStatMiss) w')))))"

subsection \<open>Observing a run\<close>

definition Do_result ::
  "('p, 't) Cache \<Rightarrow> time \<Rightarrow> request \<Rightarrow> ('p, 't) world \<Rightarrow> failure + response" where
  "Do_result r now req w = fst (Do r now req w)"

definition Do_world ::
  "('p, 't) Cache \<Rightarrow> time \<Rightarrow> request \<Rightarrow> ('p, 't) world \<Rightarrow> ('p, 't) world" where
  "Do_world r now req w = snd (snd (Do r now req w))"

text \<open>The calls that a run adds to the ones made before it.\<close>

definition new_calls :: "('p, 't) world \<Rightarrow> ('p, 't) world \<Rightarrow> call list" where
  "new_calls w w' = drop (length (calls w)) (calls w')"

fun is_HttpDo :: "call \<Rightarrow> bool" where
  "is_HttpDo (HttpDo req res) = True"
| "is_HttpDo c = False"

fun is_ProviderGet :: "call \<Rightarrow> bool" where
  "is_ProviderGet (ProviderGet k) = True"
| "is_ProviderGet c = False"

text \<open>The requests that went to the transport, in order.\<close>

fun dispatched :: "call list \<Rightarrow> request list" where
  "dispatched [] = []"
| "dispatched (HttpDo q res # cs) = q # dispatched cs"
| "dispatched (c # cs) = dispatched cs"

text \<open>The transport call count, as the tests' \<^verbatim>\<open>requestCount\<close> counts it.\<close>

definition transport_calls :: "('p, 't) world \<Rightarrow> nat" where
  "transport_calls w = length (filter is_HttpDo (calls w))"

text \<open>One call of \<^verbatim>\<open>Do\<close> with the same request at each of the given instants.\<close>

fun Do_each ::
  "('p, 't) Cache \<Rightarrow> time list \<Rightarrow> request \<Rightarrow> ('p, 't) world
     \<Rightarrow> (failure + response) list \<times> ('p, 't) world" where
  "Do_each r [] req w = ([], w)"
| "Do_each r (now # nows) req w =
     (case Do_each r nows req (Do_world r now req w) of
        (rs, w') \<Rightarrow> (Do_result r now req w # rs, w'))"

text \<open>Whether a call leaves expiry to the entry: a \<^verbatim>\<open>Set\<close> does when its expiry is zero.\<close>

fun ttl_zero :: "call \<Rightarrow> bool" where
  "ttl_zero (ProviderSet k v expiry res) = (expiry = 0)"
| "ttl_zero c = True"

text \<open>
  What can follow a transport call in a run: nothing, or one \<^verbatim>\<open>Set\<close> of the key
  with expiry zero; \<open>P\<close> is what holds of the error of a \<^verbatim>\<open>Set\<close> that failed.
\<close>

definition set_tail :: "string \<Rightarrow> call list \<Rightarrow> (error \<Rightarrow> bool) \<Rightarrow> bool" where
  "set_tail k ys P \<longleftrightarrow>
     ys = [] \<or> (\<exists>bs sres. ys = [ProviderSet k bs 0 sres] \<and> (\<forall>err. sres = Some err \<longrightarrow> P err))"

text \<open>
  What a run adds after its read: nothing, or one transport call and what can
  follow it.
\<close>

definition fetch_tail ::
  "('p, 't) Cache \<Rightarrow> request \<Rightarrow> ('p, 't) world \<Rightarrow> failure + response \<Rightarrow> call list \<Rightarrow> bool" where
  "fetch_tail r req w res post \<longleftrightarrow>
     post = [] \<or>
     (\<not> OnlyCached (Ctx req) \<and>
      (\<exists>entry tres ys. post = HttpDo (revalidation entry req) tres # ys \<and>
         tres = fst (HttpClient_Do r (httpClient w) (revalidation entry req)) \<and>
         set_tail (key r req) ys (\<lambda>err. \<forall>resp. tres = Inr resp \<and> resp_StatusCode resp \<noteq> 304 \<longrightarrow>
            res = Inl (Error (fmt_Errorf ''r.store(): ''
                   (fmt_Errorf ''r.write(): '' (fmt_Errorf ''provider.Set(): '' err)))))))"

text \<open>
  The cache whose provider answers \<^verbatim>\<open>Get\<close> with \<^verbatim>\<open>nil, nil\<close> (not found) in state
  \<open>p\<close> for context \<open>c\<close> and key \<open>k\<close>, going to state \<open>p'\<close>, and is as \<open>r\<close> otherwise.
\<close>

definition absent_at ::
  "('p, 't) Cache \<Rightarrow> 'p \<Rightarrow> ctx \<Rightarrow> string \<Rightarrow> 'p \<Rightarrow> ('p, 't) Cache" where
  "absent_at r p c k p' =
     r\<lparr>provider_Get :=
         (\<lambda>q d j. if q = p \<and> d = c \<and> j = k then (Inr None, p') else provider_Get r q d j)\<rparr>"

section \<open>The memory provider\<close>

text \<open>
  \<^verbatim>\<open>memoryprovider\<close>: a Go map from keys to byte slices; the map of a provider made
  without \<^verbatim>\<open>New\<close> is \<^verbatim>\<open>nil\<close> (\<open>None\<close>), and a stored slice may be \<^verbatim>\<open>nil\<close>.
\<close>

record MemoryProvider =
  data :: "(string \<rightharpoonup> bytes option) option"

definition MemoryProvider_New :: MemoryProvider where
  "MemoryProvider_New = \<lparr> data = Some Map.empty \<rparr>"

definition MemoryProvider_Get ::
  "MemoryProvider \<Rightarrow> ctx \<Rightarrow> string \<Rightarrow> (error + bytes option) \<times> MemoryProvider" where
  "MemoryProvider_Get p c k =
     (case data p of
        None \<Rightarrow> (Inl (errors_New ''memory provider is not initialized''), p)
      | Some m \<Rightarrow>
          (case m k of
             None \<Rightarrow> (Inr None, p)
           | Some v \<Rightarrow> (Inr v, p)))"

definition MemoryProvider_Set ::
  "MemoryProvider \<Rightarrow> ctx \<Rightarrow> string \<Rightarrow> bytes option \<Rightarrow> int
     \<Rightarrow> error option \<times> MemoryProvider" where
  "MemoryProvider_Set p c k v expiry =
     (case data p of
        None \<Rightarrow> (Some (errors_New ''memory provider is not initialized''), p)
      | Some m \<Rightarrow> (None, p\<lparr>data := Some (m(k \<mapsto> v))\<rparr>))"

section \<open>Concrete collaborators\<close>

text \<open>
  A transport that replays a script of outcomes, one per call, and a codec and a date
  parser given by tables. With the memory provider they make the engine runnable on
  explicit inputs.
\<close>

type_synonym script = "(error + response) list"

definition script_Do :: "script \<Rightarrow> request \<Rightarrow> (error + response) \<times> script" where
  "script_Do t req =
     (case t of
        [] \<Rightarrow> (Inl (errors_New ''connection refused''), [])
      | x # xs \<Rightarrow> (x, xs))"

definition table_Unmarshal :: "(bytes \<times> cacheEntry) list \<Rightarrow> bytes \<Rightarrow> cacheEntry option" where
  "table_Unmarshal tab bs = map_of tab bs"

definition table_Marshal :: "(bytes \<times> cacheEntry) list \<Rightarrow> cacheEntry \<Rightarrow> error + bytes" where
  "table_Marshal tab e =
     (case find (\<lambda>(bs, e'). e' = e) tab of
        None \<Rightarrow> Inl (errors_New ''json: unsupported value'')
      | Some (bs, e') \<Rightarrow> Inr bs)"

definition hello :: bytes where
  "hello = [72, 101, 108, 108, 111]"

definition fresh_entry :: cacheEntry where
  "fresh_entry =
     \<lparr> Ts = 1740000000, StatusCode = 200, Data = hello,
       Headers = [(''Expires'', ''Thu, 01 Jan 2026 00:00:00 GMT'')] \<rparr>"

definition stale_entry :: cacheEntry where
  "stale_entry =
     \<lparr> Ts = 1730000000, StatusCode = 200, Data = hello,
       Headers = [(''Expires'', ''Wed, 01 Jan 2025 00:00:00 GMT''), (''ETag'', ''abcd'')] \<rparr>"

text \<open>The entry that \<^verbatim>\<open>store\<close> builds at instant 1750000000 from \<open>origin_200\<close> below.\<close>

definition fetched_entry :: cacheEntry where
  "fetched_entry =
     \<lparr> Ts = 1750000000, StatusCode = 200, Data = hello,
       Headers = [(''Expires'', ''Thu, 01 Jan 2026 00:00:00 GMT'')] \<rparr>"

definition codec :: "(bytes \<times> cacheEntry) list" where
  "codec = [([1], fresh_entry), ([2], stale_entry), ([3], fetched_entry)]"

definition dates :: "string \<Rightarrow> time option" where
  "dates = map_of [(''Thu, 01 Jan 2026 00:00:00 GMT'', 1767225600),
                   (''Wed, 01 Jan 2025 00:00:00 GMT'', 1735689600)]"

definition demo :: "(MemoryProvider, script) Cache" where
  "demo =
     \<lparr> provider_Get = MemoryProvider_Get,
       provider_Set = (\<lambda>p c k v expiry. MemoryProvider_Set p c k (Some v) expiry),
       HttpClient_Do = script_Do,
       KeyGenerator = None,
       json_Marshal = table_Marshal codec,
       json_Unmarshal = table_Unmarshal codec,
       time_Parse = dates \<rparr>"

text \<open>The same with a provider that refuses every \<^verbatim>\<open>Set\<close>.\<close>

definition demo_readonly :: "(MemoryProvider, script) Cache" where
  "demo_readonly =
     demo\<lparr>provider_Set := (\<lambda>p c k v expiry. (Some (errors_New ''READONLY''), p))\<rparr>"

definition get :: "string \<Rightarrow> ctx \<Rightarrow> request" where
  "get u c = \<lparr> Method = ''GET'', URL = u, Header = [], Ctx = c \<rparr>"

definition origin_200 :: response where
  "origin_200 =
     \<lparr> resp_StatusCode = 200, resp_Body = Reader hello,
       resp_Header = [(''Expires'', [''Thu, 01 Jan 2026 00:00:00 GMT''])],
       resp_Request = None, resp_ContentLength = 5 \<rparr>"

definition origin_304 :: response where
  "origin_304 =
     \<lparr> resp_StatusCode = 304, resp_Body = Reader [],
       resp_Header = [(''Expires'', [''Fri, 01 Jan 2027 00:00:00 GMT''])],
       resp_Request = None, resp_ContentLength = 0 \<rparr>"

text \<open>A world whose memory provider holds the given bytes under the given keys.\<close>

definition world_with ::
  "(string \<times> bytes) list \<Rightarrow> script \<Rightarrow> (MemoryProvider, script) world" where
  "world_with kvs t =
     \<lparr> provider = \<lparr> data = Some (map_of (map (\<lambda>(k, v). (k, Some v)) kvs)) \<rparr>,
       httpClient = t, calls = [] \<rparr>"

lemmas engine_defs =
  Do_def Do_fetch_def revalidation_def read_def write_entry_def store_def call_Get_def call_Set_def
  call_Do_def key_def DefaultKeyGenerator_def len_def expired_def asHttpResponse_def
  Header_Set_def IgnoreCache_def IgnoreExpired_def OnlyCached_def
  WithIgnoreCache_def WithIgnoreExpired_def WithOnlyCached_def
  Do_result_def Do_world_def new_calls_def transport_calls_def Let_def

lemmas demo_defs =
  demo_def demo_readonly_def MemoryProvider_Get_def MemoryProvider_Set_def script_Do_def
  table_Marshal_def table_Unmarshal_def codec_def dates_def hello_def fresh_entry_def
  stale_entry_def fetched_entry_def get_def origin_200_def origin_304_def world_with_def

section \<open>How a run unfolds\<close>

text \<open>
  The calls of a run have one shape: at most one \<^verbatim>\<open>Get\<close>, then at most one transport
  call, then at most one \<^verbatim>\<open>Set\<close>, of the key and with expiry zero. The lemmas below
  establish it function by function, from \<^verbatim>\<open>write\<close> up to \<^verbatim>\<open>Do\<close>.
\<close>

lemma new_calls_append [simp]: "new_calls w (w'\<lparr>calls := calls w @ xs\<rparr>) = xs"
  by (simp add: new_calls_def)

lemma new_calls_self [simp]: "new_calls w w = []"
  by (simp add: new_calls_def)

lemma write_entry_run:
  "\<exists>ys. calls (snd (write_entry r c k e w)) = calls w @ ys \<and>
     set_tail k ys (\<lambda>err. fst (write_entry r c k e w) = Some (fmt_Errorf ''provider.Set(): '' err))"
  by (auto simp: write_entry_def call_Set_def set_tail_def split: sum.splits prod.splits option.splits)

lemma store_run:
  "\<exists>ys. calls (snd (store r now c k resp w)) = calls w @ ys \<and>
     set_tail k ys (\<lambda>err. fst (store r now c k resp w) =
        Inl (Error (fmt_Errorf ''r.write(): '' (fmt_Errorf ''provider.Set(): '' err))))"
proof (cases "ReadAll (resp_Body resp)")
  case (Inl a)
  then show ?thesis by (simp add: store_def set_tail_def)
next
  case (Inr bs)
  show ?thesis
  proof (cases "list_ex (\<lambda>(k, v). v = []) (resp_Header resp)")
    case True
    then show ?thesis using Inr by (simp add: store_def set_tail_def)
  next
    case False
    define e where "e = \<lparr> Ts = now, StatusCode = resp_StatusCode resp, Data = bs,
                       Headers = map (\<lambda>(k, v). (k, hd v)) (resp_Header resp) \<rparr>"
    have s: "store r now c k resp w =
       (case write_entry r c k e w of
                  (Some err, w') \<Rightarrow> (Inl (Error (fmt_Errorf ''r.write(): '' err)), w')
                | (None, w') \<Rightarrow> (Inr e, w'))"
      using Inr False unfolding e_def by (simp add: store_def Let_def)
    obtain res w' where we: "write_entry r c k e w = (res, w')" by (cases "write_entry r c k e w")
    from write_entry_run[of r c k e w] obtain ys where ys: "calls w' = calls w @ ys"
      "set_tail k ys (\<lambda>err. res = Some (fmt_Errorf ''provider.Set(): '' err))"
      using we by auto
    show ?thesis
      using ys by (cases res) (auto simp: s we set_tail_def)
  qed
qed

lemma Do_fetch_run:
  fixes r now req k entry stat w
  defines "out \<equiv> Do_fetch r now req k entry stat w"
  shows "\<exists>xs. calls (snd (snd out)) = calls w @ xs \<and>
     (if OnlyCached (Ctx req) then xs = []
      else \<exists>tres ys. xs = HttpDo (revalidation entry req) tres # ys \<and>
             tres = fst (HttpClient_Do r (httpClient w) (revalidation entry req)) \<and>
             set_tail k ys (\<lambda>err. \<forall>resp. tres = Inr resp \<and> resp_StatusCode resp \<noteq> 304 \<longrightarrow>
                fst out = Inl (Error (fmt_Errorf ''r.store(): ''
                   (fmt_Errorf ''r.write(): '' (fmt_Errorf ''provider.Set(): '' err))))))"
proof (cases "OnlyCached (Ctx req)")
  case True
  then show ?thesis by (simp add: out_def Do_fetch_def split: option.splits)
next
  case False
  define q where "q = revalidation entry req"
  obtain tres t' where t: "HttpClient_Do r (httpClient w) q = (tres, t')"
    by (cases "HttpClient_Do r (httpClient w) q")
  define w1 where "w1 = w\<lparr>httpClient := t', calls := calls w @ [HttpDo q tres]\<rparr>"
  have cd: "call_Do r q w = (tres, w1)" by (simp add: call_Do_def t w1_def)
  have cw1: "calls w1 = calls w @ [HttpDo q tres]" by (simp add: w1_def)
  have o: "out = (case (tres, w1) of
              (Inl err, w1) \<Rightarrow> (Inl (Error (fmt_Errorf ''http.Do(): '' err)), stat, w1)
            | (Inr resp, w1) \<Rightarrow>
                if resp_StatusCode resp = 304 then
                  (case entry of
                     None \<Rightarrow>
                       (Inl (Error (errors_New ''no cached entry to return'')), stat, w1)
                   | Some e \<Rightarrow>
                       (let h1 = (case map_of (Headers e) ''Expires'' of
                                    None \<Rightarrow> resp_Header resp
                                  | Some expires \<Rightarrow>
                                      Header_Set (resp_Header resp) ''Expires'' expires);
                            h2 = (case map_of (Headers e) ''Last-Modified'' of
                                    None \<Rightarrow> h1
                                  | Some lastModified \<Rightarrow>
                                      Header_Set h1 ''Last-Modified'' lastModified)
                        in case write_entry r (Ctx req) k e w1 of
                             (_, w2) \<Rightarrow>
                               (Inr (resp\<lparr>resp_Header := h2, resp_Body := Reader (Data e)\<rparr>),
                                stat, w2)))
                else
                  (case store r now (Ctx req) k resp w1 of
                     (Inl (Error err), w2) \<Rightarrow>
                       (Inl (Error (fmt_Errorf ''r.store(): '' err)), stat, w2)
                   | (Inl (Panic m), w2) \<Rightarrow> (Inl (Panic m), stat, w2)
                   | (Inr e, w2) \<Rightarrow> (Inr (asHttpResponse e q), stat, w2)))"
    using False cd unfolding out_def Do_fetch_def q_def by (simp add: Let_def)
  show ?thesis
  proof (cases tres)
    case (Inl err)
    then show ?thesis using False t cw1 by (simp add: o q_def set_tail_def)
  next
    case (Inr resp)
    show ?thesis
    proof (cases "resp_StatusCode resp = 304")
      case True
      show ?thesis
      proof (cases entry)
        case None
        then show ?thesis using False t Inr True cw1 by (simp add: o q_def set_tail_def)
      next
        case (Some e)
        obtain wr w2 where we: "write_entry r (Ctx req) k e w1 = (wr, w2)"
          by (cases "write_entry r (Ctx req) k e w1")
        from write_entry_run[of r "Ctx req" k e w1] obtain ys where
          ys: "calls w2 = calls w1 @ ys" "set_tail k ys (\<lambda>err. wr = Some (fmt_Errorf ''provider.Set(): '' err))"
          using we by auto
        have "set_tail k ys (\<lambda>err. False \<longrightarrow> True)" using ys(2) by (auto simp: set_tail_def)
        then show ?thesis using False t Inr True Some ys(1) cw1
          by (auto simp add: o q_def we Let_def set_tail_def)
      qed
    next
      case F: False
      obtain sr w2 where st: "store r now (Ctx req) k resp w1 = (sr, w2)"
        by (cases "store r now (Ctx req) k resp w1")
      from store_run[of r now "Ctx req" k resp w1] obtain ys where
        ys: "calls w2 = calls w1 @ ys" "set_tail k ys (\<lambda>err. sr =
        Inl (Error (fmt_Errorf ''r.write(): '' (fmt_Errorf ''provider.Set(): '' err))))"
        using st by auto
      have c: "calls (snd (snd out)) = calls w @ HttpDo q (Inr resp) # ys"
        using Inr F ys(1) cw1 by (simp add: o st split: sum.splits failure.splits)
      have "fst out = Inl (Error (fmt_Errorf ''r.store(): ''
                   (fmt_Errorf ''r.write(): '' (fmt_Errorf ''provider.Set(): '' err))))"
        if "sr = Inl (Error (fmt_Errorf ''r.write(): '' (fmt_Errorf ''provider.Set(): '' err)))" for err
        using that Inr F by (simp add: o st)
      then have "set_tail k ys (\<lambda>err. \<forall>resp. tres = Inr resp \<and> resp_StatusCode resp \<noteq> 304 \<longrightarrow>
                fst out = Inl (Error (fmt_Errorf ''r.store(): ''
                   (fmt_Errorf ''r.write(): '' (fmt_Errorf ''provider.Set(): '' err)))))"
        using ys(2) by (auto simp: set_tail_def)
      then show ?thesis using False c t Inr by (simp add: q_def)
    qed
  qed
qed


lemma read_run:
  "calls (snd (read r now c k w)) = calls w @ [ProviderGet k] \<and>
   httpClient (snd (read r now c k w)) = httpClient w \<and>
   provider (snd (read r now c k w)) = snd (provider_Get r (provider w) c k)"
  by (simp add: read_def call_Get_def split: prod.splits sum.splits option.splits)

lemma Do_fetch_tail:
  assumes "httpClient w' = httpClient w"
  shows "\<exists>post. calls (snd (snd (Do_fetch r now req (key r req) entry stat w'))) = calls w' @ post \<and>
     fetch_tail r req w (fst (Do_fetch r now req (key r req) entry stat w')) post"
  using Do_fetch_run[of r now req "key r req" entry stat w'] assms
  by (auto simp: fetch_tail_def split: if_splits)

lemma Do_run:
  "\<exists>xs. calls (Do_world r now req w) = calls w @ xs \<and>
     (if Method req \<noteq> ''GET'' then xs = [HttpDo req (fst (HttpClient_Do r (httpClient w) req))]
      else \<exists>pre post. xs = pre @ post \<and>
        pre = (if IgnoreCache (Ctx req) then []
               else [ProviderGet (key r req)]) \<and>
        fetch_tail r req w (Do_result r now req w) post)"
proof (cases "Method req \<noteq> ''GET''")
  case True
  then show ?thesis
    by (simp add: Do_def Do_world_def call_Do_def split: prod.splits sum.splits)
next
  case G: False
  show ?thesis
  proof (cases "IgnoreCache (Ctx req)")
    case True
    have d: "Do r now req w = Do_fetch r now req (key r req) None (Some cacheStatIgnored) w"
      using G True by (simp add: Do_def)
    from Do_fetch_tail[of w w r now req None "Some cacheStatIgnored"]
    show ?thesis using G True by (simp add: Do_world_def Do_result_def d)
  next
    case False
    obtain entry rerr w' where rd: "read r now (Ctx req) (key r req) w = ((entry, rerr), w')"
      by (cases "read r now (Ctx req) (key r req) w") auto
    from read_run[of r now "Ctx req" "key r req" w] have
      w': "calls w' = calls w @ [ProviderGet (key r req)]"
        "httpClient w' = httpClient w"
      by (simp_all add: rd)
    have early: ?thesis if "Do r now req w = (res, st, w')" for res st
      using that G False w' by (simp add: Do_world_def Do_result_def fetch_tail_def)
    have later: ?thesis if "Do r now req w = Do_fetch r now req (key r req) en st w'" for en st
    proof -
      from Do_fetch_tail[OF w'(2), of r now req en st] obtain post where
        p: "calls (snd (snd (Do_fetch r now req (key r req) en st w'))) = calls w' @ post"
        "fetch_tail r req w (fst (Do_fetch r now req (key r req) en st w')) post" by blast
      show ?thesis using G False p w'(1) by (simp add: Do_world_def Do_result_def that)
    qed
    show ?thesis
    proof (cases rerr)
      case None
      show ?thesis
      proof (cases entry)
        case N: None
        show ?thesis by (rule later) (simp add: Do_def G False rd None N)
      next
        case (Some e)
        show ?thesis by (rule early) (simp add: Do_def G False rd None Some)
      qed
    next
      case (Some err)
      consider "errors_Is err ErrCacheExpired"
        | "\<not> errors_Is err ErrCacheExpired" "errors_Is err ErrCacheExpiryIgnored"
        | "\<not> errors_Is err ErrCacheExpired" "\<not> errors_Is err ErrCacheExpiryIgnored" by blast
      then show ?thesis
      proof cases
        case 1
        show ?thesis by (rule later) (simp add: Do_def G False rd Some 1)
      next
        case 2
        show ?thesis by (cases entry; (rule early, simp add: Do_def G False rd Some 2))
      next
        case 3
        show ?thesis by (rule early) (simp add: Do_def G False rd Some 3)
      qed
    qed
  qed
qed


subsection \<open>What the read yields\<close>

lemma read_fresh:
  assumes "provider_Get r (provider w) c k = (Inr (Some v), p')" "v \<noteq> []"
    "json_Unmarshal r v = Some e" "\<not> expired (time_Parse r) now e"
  shows "read r now c k w =
     ((Some e, None), w\<lparr>provider := p', calls := calls w @ [ProviderGet k]\<rparr>)"
  using assms by (simp add: read_def call_Get_def len_def)

lemma read_expired:
  assumes "provider_Get r (provider w) c k = (Inr (Some v), p')" "v \<noteq> []"
    "json_Unmarshal r v = Some e" "expired (time_Parse r) now e"
  shows "read r now c k w =
     ((Some e, Some (if IgnoreExpired c then ErrCacheExpiryIgnored else ErrCacheExpired)),
      w\<lparr>provider := p', calls := calls w @ [ProviderGet k]\<rparr>)"
  using assms by (simp add: read_def call_Get_def len_def)

lemma read_absent:
  assumes "provider_Get r (provider w) c k = (Inr v, p')"
    "len v = 0 \<or> json_Unmarshal r (the v) = None"
  shows "read r now c k w =
     ((None, None), w\<lparr>provider := p', calls := calls w @ [ProviderGet k]\<rparr>)"
  using assms by (auto simp add: read_def call_Get_def)

lemma Do_fresh:
  assumes "Method req = ''GET''" "\<not> IgnoreCache (Ctx req)"
    "provider_Get r (provider w) (Ctx req) (key r req) = (Inr (Some v), p')" "v \<noteq> []"
    "json_Unmarshal r v = Some e" "\<not> expired (time_Parse r) now e"
  shows "Do r now req w =
     (Inr (asHttpResponse e req), Some cacheStatHit,
      w\<lparr>provider := p', calls := calls w @ [ProviderGet (key r req)]\<rparr>)"
  using assms by (simp add: Do_def read_fresh)

lemma Do_each_fresh:
  assumes "Method req = ''GET''" "\<not> IgnoreCache (Ctx req)"
    "provider_Get r p (Ctx req) (key r req) = (Inr (Some v), p)" "v \<noteq> []"
    "json_Unmarshal r v = Some e" "\<forall>now \<in> set nows. \<not> expired (time_Parse r) now e"
    "provider w = p"
  shows "Do_each r nows req w =
     (replicate (length nows) (Inr (asHttpResponse e req)),
      w\<lparr>calls := calls w @ replicate (length nows) (ProviderGet (key r req))\<rparr>)"
  using assms
proof (induction nows arbitrary: w)
  case Nil
  then show ?case by simp
next
  case (Cons now nows)
  have d: "Do r now req w =
     (Inr (asHttpResponse e req), Some cacheStatHit,
      w\<lparr>provider := p, calls := calls w @ [ProviderGet (key r req)]\<rparr>)"
    using Cons.prems by (intro Do_fresh) auto
  have "Do_each r nows req (Do_world r now req w) = 
     (replicate (length nows) (Inr (asHttpResponse e req)),
      (Do_world r now req w)\<lparr>calls := calls (Do_world r now req w) @ replicate (length nows) (ProviderGet (key r req))\<rparr>)"
    using Cons.prems by (intro Cons.IH) (auto simp: Do_world_def d)
  then show ?case using Cons.prems(7)
    by (simp add: d Do_world_def Do_result_def replicate_append_same)
qed

subsection \<open>The paths of a run\<close>

text \<open>Each path of \<^verbatim>\<open>Do\<close>, under the conditions that select it.\<close>

lemma Do_ignoreCache:
  assumes "Method req = ''GET''" "IgnoreCache (Ctx req)"
  shows "Do r now req w = Do_fetch r now req (key r req) None (Some cacheStatIgnored) w"
  using assms by (simp add: Do_def Let_def)

lemma Do_miss:
  assumes "Method req = ''GET''" "\<not> IgnoreCache (Ctx req)"
    "provider_Get r (provider w) (Ctx req) (key r req) = (Inr v, p')"
    "len v = 0 \<or> json_Unmarshal r (the v) = None"
  shows "Do r now req w = Do_fetch r now req (key r req) None (Some cacheStatMiss)
     (w\<lparr>provider := p', calls := calls w @ [ProviderGet (key r req)]\<rparr>)"
  using assms(1,2) by (simp add: Do_def Let_def read_absent[OF assms(3,4)])

lemma Do_expired:
  assumes "Method req = ''GET''" "\<not> IgnoreCache (Ctx req)" "\<not> IgnoreExpired (Ctx req)"
    "provider_Get r (provider w) (Ctx req) (key r req) = (Inr (Some v), p')" "v \<noteq> []"
    "json_Unmarshal r v = Some e" "expired (time_Parse r) now e"
  shows "Do r now req w = Do_fetch r now req (key r req) (Some e) (Some cacheStatExpired)
     (w\<lparr>provider := p', calls := calls w @ [ProviderGet (key r req)]\<rparr>)"
  using assms(1,2,3) by (simp add: Do_def Let_def read_expired[OF assms(4-7)])



lemma Do_fetch_304_none:
  assumes "\<not> OnlyCached (Ctx req)"
    "HttpClient_Do r (httpClient w) req = (Inr resp, t')" "resp_StatusCode resp = 304"
  shows "Do_fetch r now req k None stat w =
     (Inl (Error (errors_New ''no cached entry to return'')), stat,
      w\<lparr>httpClient := t', calls := calls w @ [HttpDo req (Inr resp)]\<rparr>)"
  using assms by (simp add: Do_fetch_def revalidation_def call_Do_def)

lemma Do_fetch_304_some:
  assumes "\<not> OnlyCached (Ctx req)"
    "HttpClient_Do r (httpClient w) (revalidation (Some e) req) = (Inr resp, t')"
    "resp_StatusCode resp = 304"
  shows "fst (Do_fetch r now req k (Some e) stat w) =
     Inr (resp\<lparr>resp_Header :=
            (case map_of (Headers e) ''Last-Modified'' of
               None \<Rightarrow> (case map_of (Headers e) ''Expires'' of
                          None \<Rightarrow> resp_Header resp
                        | Some expires \<Rightarrow> Header_Set (resp_Header resp) ''Expires'' expires)
             | Some lastModified \<Rightarrow>
                 Header_Set (case map_of (Headers e) ''Expires'' of
                          None \<Rightarrow> resp_Header resp
                        | Some expires \<Rightarrow> Header_Set (resp_Header resp) ''Expires'' expires)
                     ''Last-Modified'' lastModified),
          resp_Body := Reader (Data e)\<rparr>)"
  using assms by (simp add: Do_fetch_def call_Do_def Let_def split: prod.splits)

lemma Do_fetch_store:
  assumes "\<not> OnlyCached (Ctx req)"
    "HttpClient_Do r (httpClient w) (revalidation entry req) = (Inr resp, t')"
    "resp_StatusCode resp \<noteq> 304"
    "ReadAll (resp_Body resp) = Inr bs"
    "\<not> list_ex (\<lambda>(k, v). v = []) (resp_Header resp)"
    "json_Marshal r \<lparr> Ts = now, StatusCode = resp_StatusCode resp, Data = bs,
        Headers = map (\<lambda>(k, v). (k, hd v)) (resp_Header resp) \<rparr> = Inr dataBytes"
    "provider_Set r (provider w) (Ctx req) k dataBytes 0 = (sres, p2)"
  shows "Do_fetch r now req k entry stat w =
     ((case sres of
         None \<Rightarrow> Inr (asHttpResponse \<lparr> Ts = now, StatusCode = resp_StatusCode resp, Data = bs,
                   Headers = map (\<lambda>(k, v). (k, hd v)) (resp_Header resp) \<rparr> (revalidation entry req))
       | Some err \<Rightarrow> Inl (Error (fmt_Errorf ''r.store(): ''
                   (fmt_Errorf ''r.write(): '' (fmt_Errorf ''provider.Set(): '' err))))),
      stat,
      w\<lparr>httpClient := t', provider := p2,
        calls := calls w @ [HttpDo (revalidation entry req) (Inr resp),
                            ProviderSet k dataBytes 0 sres]\<rparr>)"
  using assms
  by (simp add: Do_fetch_def call_Do_def store_def write_entry_def call_Set_def Let_def
      split: option.splits)

lemma map_of_Header_Set:
  "map_of (Header_Set h k v) k' = (if k' = k then Some [v] else map_of h k')"
  by (simp add: Header_Set_def update_conv')

lemma set_tail_filters:
  assumes "set_tail k ys P"
  shows "filter is_HttpDo ys = []" "filter is_ProviderGet ys = []" "list_all ttl_zero ys"
    "dispatched ys = []"
  using assms by (auto simp: set_tail_def)

subsection \<open>What a run does not depend on\<close>

text \<open>
  Past the read, nothing looks at the provider's \<^verbatim>\<open>Get\<close>; so a run whose read yields
  no entry is the run of the cache whose provider had nothing to give.
\<close>

lemma call_Set_absent_at:
  "call_Set (absent_at r p c k p') d j v x w = call_Set r d j v x w"
  by (simp add: call_Set_def absent_at_def)

lemma json_Marshal_absent_at:
  "json_Marshal (absent_at r p c k p') = json_Marshal r"
  by (simp add: absent_at_def)

lemma write_entry_absent_at:
  "write_entry (absent_at r p c k p') d j e w = write_entry r d j e w"
  unfolding write_entry_def call_Set_absent_at json_Marshal_absent_at
  by (rule refl)

lemma store_absent_at:
  "store (absent_at r p c k p') now d j resp w = store r now d j resp w"
  unfolding store_def write_entry_absent_at
  by (rule refl)

lemma call_Do_absent_at:
  "call_Do (absent_at r p c k p') req w = call_Do r req w"
  by (simp add: call_Do_def absent_at_def)

lemma Do_fetch_absent_at:
  "Do_fetch (absent_at r p c k p') now req j entry stat w = Do_fetch r now req j entry stat w"
  unfolding Do_fetch_def write_entry_absent_at store_absent_at call_Do_absent_at
  by (rule refl)

lemma key_absent_at: "key (absent_at r p c k p') req = key r req"
  by (simp add: key_def absent_at_def)

lemma Do_nil_entry:
  assumes "provider_Get r (provider w) (Ctx req) (key r req) = (Inr v, p')"
    and "len v = 0 \<or> json_Unmarshal r (the v) = None"
  shows "Do r now req w = Do (absent_at r (provider w) (Ctx req) (key r req) p') now req w"
proof -
  let ?r = "absent_at r (provider w) (Ctx req) (key r req) p'"
  show ?thesis
  proof (cases "Method req \<noteq> ''GET''")
    case True
    then show ?thesis by (simp add: Do_def call_Do_absent_at)
  next
    case G: False
    show ?thesis
    proof (cases "IgnoreCache (Ctx req)")
      case True
      show ?thesis using G True
        by (simp add: Do_ignoreCache Do_fetch_absent_at key_absent_at)
    next
      case False
      have g: "provider_Get ?r (provider w) (Ctx req) (key ?r req) = (Inr None, p')"
        by (simp add: absent_at_def key_def)
      have l: "len None = 0 \<or> json_Unmarshal ?r (the None) = None" by (simp add: len_def)
      have m: "Method req = ''GET''" using G by simp
      show ?thesis
        unfolding Do_miss [OF m False assms] Do_miss [OF m False g l]
        by (simp add: Do_fetch_absent_at key_absent_at)
    qed
  qed
qed

section \<open>The claims\<close>

subsection \<open>C1: a fresh entry is served without the transport\<close>

text \<open>
  Claim C1. For a GET request with no override flag whose key holds bytes that decode
  to an entry that is not expired, \<^verbatim>\<open>Do\<close> returns the response rebuilt from that
  entry, with the entry's status code and body bytes, and its only call is the
  provider's \<^verbatim>\<open>Get\<close>: the transport call count stays as it was. When the provider's
  \<^verbatim>\<open>Get\<close> leaves the provider as it is, any number of such calls, each at an instant
  at which the entry is not expired, all return that response and leave the transport
  call count as it was.
\<close>

theorem C1_fresh_hit_without_transport:
  assumes "Method req = ''GET''"
    and "\<not> IgnoreCache (Ctx req)" and "\<not> IgnoreExpired (Ctx req)" and "\<not> OnlyCached (Ctx req)"
    and "provider_Get r (provider w) (Ctx req) (key r req) = (Inr (Some v), p')"
    and "v \<noteq> []" and "json_Unmarshal r v = Some e"
    and "\<not> expired (time_Parse r) now e"
  shows "Do_result r now req w = Inr (asHttpResponse e req) \<and>
         resp_StatusCode (asHttpResponse e req) = StatusCode e \<and>
         ReadAll (resp_Body (asHttpResponse e req)) = Inr (Data e) \<and>
         new_calls w (Do_world r now req w) = [ProviderGet (key r req)] \<and>
         transport_calls (Do_world r now req w) = transport_calls w \<and>
         (p' = provider w \<longrightarrow>
            (\<forall>nows. (\<forall>t \<in> set nows. \<not> expired (time_Parse r) t e) \<longrightarrow>
               fst (Do_each r nows req w) = replicate (length nows) (Inr (asHttpResponse e req)) \<and>
               transport_calls (snd (Do_each r nows req w)) = transport_calls w))"
proof -
  have d: "Do r now req w =
     (Inr (asHttpResponse e req), Some cacheStatHit,
      w\<lparr>provider := p', calls := calls w @ [ProviderGet (key r req)]\<rparr>)"
    using assms by (intro Do_fresh)
  have rep: "fst (Do_each r nows req w) = replicate (length nows) (Inr (asHttpResponse e req)) \<and>
             transport_calls (snd (Do_each r nows req w)) = transport_calls w"
    if "p' = provider w" "\<forall>t \<in> set nows. \<not> expired (time_Parse r) t e" for nows
  proof -
    have "Do_each r nows req w =
     (replicate (length nows) (Inr (asHttpResponse e req)),
      w\<lparr>calls := calls w @ replicate (length nows) (ProviderGet (key r req))\<rparr>)"
      using assms that by (intro Do_each_fresh[where p = "provider w"]) auto
    then show ?thesis by (simp add: transport_calls_def)
  qed
  show ?thesis
    using rep by (simp add: d Do_result_def Do_world_def asHttpResponse_def transport_calls_def)
qed

text \<open>
  The tests' scenario: an entry that expires on 1 January 2026 is stored for the URL,
  and the request is made in June 2025; then three calls in a row, the last at the
  very instant of expiry.
\<close>

theorem C1_fresh_hit_witness:
  "Do_result demo 1750000000 (get ''http://example.com/'' [])
       (world_with [(''http://example.com/'', [1])] [Inr origin_200])
     = Inr (asHttpResponse fresh_entry (get ''http://example.com/'' [])) \<and>
   transport_calls (Do_world demo 1750000000 (get ''http://example.com/'' [])
       (world_with [(''http://example.com/'', [1])] [Inr origin_200])) = 0 \<and>
   transport_calls (snd (Do_each demo [1750000000, 1750000060, 1767225600]
       (get ''http://example.com/'' [])
       (world_with [(''http://example.com/'', [1])] [Inr origin_200]))) = 0"
proof -
  let ?req = "get ''http://example.com/'' []"
  let ?w = "world_with [(''http://example.com/'', [1])] [Inr origin_200]"
  have h: "Method ?req = ''GET''" "\<not> IgnoreCache (Ctx ?req)" "\<not> IgnoreExpired (Ctx ?req)"
    "\<not> OnlyCached (Ctx ?req)"
    "provider_Get demo (provider ?w) (Ctx ?req) (key demo ?req) = (Inr (Some [1]), provider ?w)"
    "[1 :: byte] \<noteq> []" "json_Unmarshal demo [1] = Some fresh_entry"
    "\<not> expired (time_Parse demo) 1750000000 fresh_entry"
    by (simp_all add: engine_defs demo_defs)
  have t: "\<forall>t \<in> set [1750000000, 1750000060, 1767225600].
             \<not> expired (time_Parse demo) t fresh_entry"
    by (simp add: engine_defs demo_defs)
  have w0: "transport_calls ?w = 0" by (simp add: transport_calls_def world_with_def)
  note c = C1_fresh_hit_without_transport [OF h]
  have 1: "Do_result demo 1750000000 ?req ?w = Inr (asHttpResponse fresh_entry ?req)"
    using c by blast
  have 2: "transport_calls (Do_world demo 1750000000 ?req ?w) = transport_calls ?w"
    using c by blast
  have "\<forall>nows. (\<forall>t \<in> set nows. \<not> expired (time_Parse demo) t fresh_entry) \<longrightarrow>
          transport_calls (snd (Do_each demo nows ?req ?w)) = transport_calls ?w"
    using c by blast
  then have 3: "transport_calls (snd (Do_each demo [1750000000, 1750000060, 1767225600] ?req ?w)) =
      transport_calls ?w"
    using t by blast
  show ?thesis using 1 2 3 by (simp only: w0 simp_thms)
qed

subsection \<open>C2: ignoreCache skips the read and fetches\<close>

text \<open>
  Claim C2 as stated, for every GET request with \<^verbatim>\<open>ignoreCache\<close>, fails where
  \<^verbatim>\<open>onlyCached\<close> is set as well: the read is skipped, no entry is at hand, and
  \<^verbatim>\<open>Do\<close> returns \<^verbatim>\<open>ErrCacheMiss\<close> without any call, the transport's included.
\<close>

theorem C2_ignoreCache_counterexample:
  "Method (get ''http://example.com/'' (WithOnlyCached (WithIgnoreCache [] True) True)) = ''GET'' \<and>
   IgnoreCache (Ctx (get ''http://example.com/'' (WithOnlyCached (WithIgnoreCache [] True) True))) \<and>
   Do_result demo 1750000000
       (get ''http://example.com/'' (WithOnlyCached (WithIgnoreCache [] True) True))
       (world_with [(''http://example.com/'', [1])] [Inr origin_200])
     = Inl (Error ErrCacheMiss) \<and>
   new_calls (world_with [(''http://example.com/'', [1])] [Inr origin_200])
     (Do_world demo 1750000000
       (get ''http://example.com/'' (WithOnlyCached (WithIgnoreCache [] True) True))
       (world_with [(''http://example.com/'', [1])] [Inr origin_200])) = [] \<and>
   transport_calls (Do_world demo 1750000000
       (get ''http://example.com/'' (WithOnlyCached (WithIgnoreCache [] True) True))
       (world_with [(''http://example.com/'', [1])] [Inr origin_200]))
     \<noteq> transport_calls (world_with [(''http://example.com/'', [1])] [Inr origin_200]) + 1"
  by (simp add: engine_defs demo_defs)

text \<open>
  Claim C2, amended. For a GET request with \<^verbatim>\<open>ignoreCache\<close> and without
  \<^verbatim>\<open>onlyCached\<close>, \<^verbatim>\<open>Do\<close> never calls the provider's \<^verbatim>\<open>Get\<close> and calls the
  transport exactly once, with the request as given, whatever the provider holds.
  When the transport answers with a status other than 304, a body that reads to its
  end and headers that each have a value, and the new entry serialises, the calls are
  that transport call and then one \<^verbatim>\<open>Set\<close> of the key with the serialised new entry,
  and the provider is left as that \<^verbatim>\<open>Set\<close> leaves it.
\<close>

theorem C2_ignoreCache_fetches_once:
  assumes "Method req = ''GET''" and "IgnoreCache (Ctx req)" and "\<not> OnlyCached (Ctx req)"
  shows "filter is_ProviderGet (new_calls w (Do_world r now req w)) = [] \<and>
         filter is_HttpDo (new_calls w (Do_world r now req w)) =
           [HttpDo req (fst (HttpClient_Do r (httpClient w) req))] \<and>
         transport_calls (Do_world r now req w) = transport_calls w + 1 \<and>
         (\<forall>resp t' bs dataBytes.
            HttpClient_Do r (httpClient w) req = (Inr resp, t') \<and>
            resp_StatusCode resp \<noteq> 304 \<and>
            ReadAll (resp_Body resp) = Inr bs \<and>
            \<not> list_ex (\<lambda>(k, v). v = []) (resp_Header resp) \<and>
            json_Marshal r \<lparr> Ts = now, StatusCode = resp_StatusCode resp, Data = bs,
               Headers = map (\<lambda>(k, v). (k, hd v)) (resp_Header resp) \<rparr> = Inr dataBytes
            \<longrightarrow>
            new_calls w (Do_world r now req w) =
              [HttpDo req (Inr resp),
               ProviderSet (key r req) dataBytes 0
                 (fst (provider_Set r (provider w) (Ctx req) (key r req) dataBytes 0))] \<and>
            provider (Do_world r now req w) =
              snd (provider_Set r (provider w) (Ctx req) (key r req) dataBytes 0))"
proof -
  have d: "Do r now req w = Do_fetch r now req (key r req) None (Some cacheStatIgnored) w"
    using assms by (intro Do_ignoreCache)
  have q: "revalidation None req = req" by (simp add: revalidation_def)
  from Do_fetch_run [of r now req "key r req" None "Some cacheStatIgnored" w]
  obtain ys where ys:
    "calls (Do_world r now req w) =
       calls w @ HttpDo req (fst (HttpClient_Do r (httpClient w) req)) # ys"
    "filter is_HttpDo ys = []" "filter is_ProviderGet ys = []"
    using assms(3) by (auto simp: d q Do_world_def dest: set_tail_filters)
  have 1: "filter is_ProviderGet (new_calls w (Do_world r now req w)) = []"
    using ys by (simp add: new_calls_def)
  have 2: "filter is_HttpDo (new_calls w (Do_world r now req w)) =
           [HttpDo req (fst (HttpClient_Do r (httpClient w) req))]"
    using ys by (simp add: new_calls_def)
  have 3: "transport_calls (Do_world r now req w) = transport_calls w + 1"
    using ys by (simp add: transport_calls_def)
  have 4: "new_calls w (Do_world r now req w) =
              [HttpDo req (Inr resp),
               ProviderSet (key r req) dataBytes 0
                 (fst (provider_Set r (provider w) (Ctx req) (key r req) dataBytes 0))] \<and>
            provider (Do_world r now req w) =
              snd (provider_Set r (provider w) (Ctx req) (key r req) dataBytes 0)"
    if "HttpClient_Do r (httpClient w) req = (Inr resp, t')"
      "resp_StatusCode resp \<noteq> 304"
      "ReadAll (resp_Body resp) = Inr bs"
      "\<not> list_ex (\<lambda>(k, v). v = []) (resp_Header resp)"
      "json_Marshal r \<lparr> Ts = now, StatusCode = resp_StatusCode resp, Data = bs,
               Headers = map (\<lambda>(k, v). (k, hd v)) (resp_Header resp) \<rparr> = Inr dataBytes"
    for resp t' bs dataBytes
  proof -
    obtain sres p2 where s:
      "provider_Set r (provider w) (Ctx req) (key r req) dataBytes 0 = (sres, p2)"
      by (cases "provider_Set r (provider w) (Ctx req) (key r req) dataBytes 0")
    have t: "HttpClient_Do r (httpClient w) (revalidation None req) = (Inr resp, t')"
      using that(1) by (simp add: q)
    show ?thesis
      unfolding Do_world_def d
        Do_fetch_store [OF assms(3) t that(2) that(3) that(4) that(5) s]
      by (simp add: s q)
  qed
  show ?thesis using 1 2 3 4 by blast
qed

text \<open>
  A fresh entry is stored, and the request with \<^verbatim>\<open>ignoreCache\<close> still goes to the
  origin and stores what it gets.
\<close>

theorem C2_ignoreCache_witness:
  "new_calls (world_with [(''http://example.com/'', [1])] [Inr origin_200])
     (Do_world demo 1750000000 (get ''http://example.com/'' (WithIgnoreCache [] True))
        (world_with [(''http://example.com/'', [1])] [Inr origin_200]))
     = [HttpDo (get ''http://example.com/'' (WithIgnoreCache [] True)) (Inr origin_200),
        ProviderSet ''http://example.com/'' [3] 0 None] \<and>
   transport_calls
     (Do_world demo 1750000000 (get ''http://example.com/'' (WithIgnoreCache [] True))
        (world_with [(''http://example.com/'', [1])] [Inr origin_200])) = 1"
proof -
  let ?req = "get ''http://example.com/'' (WithIgnoreCache [] True)"
  let ?w = "world_with [(''http://example.com/'', [1])] [Inr origin_200]"
  have h: "Method ?req = ''GET''" "IgnoreCache (Ctx ?req)" "\<not> OnlyCached (Ctx ?req)"
    by (simp_all add: engine_defs demo_defs)
  have f: "HttpClient_Do demo (httpClient ?w) ?req = (Inr origin_200, []) \<and>
      resp_StatusCode origin_200 \<noteq> 304 \<and>
      ReadAll (resp_Body origin_200) = Inr hello \<and>
      \<not> list_ex (\<lambda>(k, v). v = []) (resp_Header origin_200) \<and>
      json_Marshal demo \<lparr> Ts = 1750000000, StatusCode = resp_StatusCode origin_200, Data = hello,
         Headers = map (\<lambda>(k, v). (k, hd v)) (resp_Header origin_200) \<rparr> = Inr [3]"
    by (simp add: engine_defs demo_defs)
  have s: "fst (provider_Set demo (provider ?w) (Ctx ?req) ''http://example.com/'' [3] 0) = None"
    "key demo ?req = ''http://example.com/''" "transport_calls ?w = 0"
    by (simp_all add: engine_defs demo_defs)
  note c = C2_ignoreCache_fetches_once [where r = demo and w = ?w and now = 1750000000, OF h]
  have 1: "new_calls ?w (Do_world demo 1750000000 ?req ?w) =
      [HttpDo ?req (Inr origin_200),
       ProviderSet (key demo ?req) [3] 0
         (fst (provider_Set demo (provider ?w) (Ctx ?req) (key demo ?req) [3] 0))]"
    using c f by blast
  have 2: "transport_calls (Do_world demo 1750000000 ?req ?w) = transport_calls ?w + 1"
    using c by blast
  show ?thesis using 1 2 by (simp add: s)
qed

subsection \<open>C3: a 304 answer is reconciled with the entry at hand\<close>

text \<open>
  Claim C3. On the GET path, when the transport answers 304: with no entry at hand
  (the read was skipped by \<^verbatim>\<open>ignoreCache\<close>, or the provider gave nothing, nothing
  of length, or bytes that do not decode) \<^verbatim>\<open>Do\<close> returns the error
  \<^verbatim>\<open>no cached entry to return\<close>; with the expired entry from the read at hand it
  returns the transport's response with status 304, the entry's bytes as body, and a
  header in which \<^verbatim>\<open>Expires\<close> and \<^verbatim>\<open>Last-Modified\<close> have the entry's value when the
  entry has one, whatever the transport sent, every other key being as the transport
  sent it. This holds whether or not the write of the entry that follows succeeds.
\<close>

theorem C3_not_modified:
  assumes "Method req = ''GET''" and "\<not> OnlyCached (Ctx req)"
  shows
    "(\<forall>resp t'.
        (IgnoreCache (Ctx req) \<or>
         (\<exists>v p'. provider_Get r (provider w) (Ctx req) (key r req) = (Inr v, p') \<and>
                  (len v = 0 \<or> json_Unmarshal r (the v) = None))) \<and>
        HttpClient_Do r (httpClient w) req = (Inr resp, t') \<and>
        resp_StatusCode resp = 304
        \<longrightarrow> Do_result r now req w = Inl (Error (errors_New ''no cached entry to return''))) \<and>
     (\<forall>v p' e resp t'.
        \<not> IgnoreCache (Ctx req) \<and> \<not> IgnoreExpired (Ctx req) \<and>
        provider_Get r (provider w) (Ctx req) (key r req) = (Inr (Some v), p') \<and>
        v \<noteq> [] \<and> json_Unmarshal r v = Some e \<and> expired (time_Parse r) now e \<and>
        HttpClient_Do r (httpClient w) (revalidation (Some e) req) = (Inr resp, t') \<and>
        resp_StatusCode resp = 304
        \<longrightarrow> (\<exists>h. Do_result r now req w =
                    Inr (resp\<lparr>resp_Header := h, resp_Body := Reader (Data e)\<rparr>) \<and>
                  resp_StatusCode (resp\<lparr>resp_Header := h, resp_Body := Reader (Data e)\<rparr>) = 304 \<and>
                  ReadAll (resp_Body (resp\<lparr>resp_Header := h, resp_Body := Reader (Data e)\<rparr>)) =
                    Inr (Data e) \<and>
                  (\<forall>k. map_of h k =
                     (if (k = ''Expires'' \<or> k = ''Last-Modified'') \<and> map_of (Headers e) k \<noteq> None
                      then map_option (\<lambda>x. [x]) (map_of (Headers e) k)
                      else map_of (resp_Header resp) k))))"
proof -
  have a: "Do_result r now req w = Inl (Error (errors_New ''no cached entry to return''))"
    if n: "IgnoreCache (Ctx req) \<or>
         (\<exists>v p'. provider_Get r (provider w) (Ctx req) (key r req) = (Inr v, p') \<and>
                  (len v = 0 \<or> json_Unmarshal r (the v) = None))"
      and t: "HttpClient_Do r (httpClient w) req = (Inr resp, t')"
      and s: "resp_StatusCode resp = 304" for resp t'
  proof (cases "IgnoreCache (Ctx req)")
    case True
    show ?thesis
      unfolding Do_result_def Do_ignoreCache [OF assms(1) True]
        Do_fetch_304_none [OF assms(2) t s]
      by simp
  next
    case False
    then obtain v p' where g: "provider_Get r (provider w) (Ctx req) (key r req) = (Inr v, p')"
      "len v = 0 \<or> json_Unmarshal r (the v) = None" using n by blast
    let ?wr = "w\<lparr>provider := p', calls := calls w @ [ProviderGet (key r req)]\<rparr>"
    have t1: "HttpClient_Do r (httpClient ?wr) req = (Inr resp, t')" using t by simp
    show ?thesis
      unfolding Do_result_def Do_miss [OF assms(1) False g]
        Do_fetch_304_none [OF assms(2) t1 s]
      by simp
  qed
  have b: "\<exists>h. Do_result r now req w =
                    Inr (resp\<lparr>resp_Header := h, resp_Body := Reader (Data e)\<rparr>) \<and>
                  resp_StatusCode (resp\<lparr>resp_Header := h, resp_Body := Reader (Data e)\<rparr>) = 304 \<and>
                  ReadAll (resp_Body (resp\<lparr>resp_Header := h, resp_Body := Reader (Data e)\<rparr>)) =
                    Inr (Data e) \<and>
                  (\<forall>k. map_of h k =
                     (if (k = ''Expires'' \<or> k = ''Last-Modified'') \<and> map_of (Headers e) k \<noteq> None
                      then map_option (\<lambda>x. [x]) (map_of (Headers e) k)
                      else map_of (resp_Header resp) k))"
    if f: "\<not> IgnoreCache (Ctx req)" "\<not> IgnoreExpired (Ctx req)"
      and g: "provider_Get r (provider w) (Ctx req) (key r req) = (Inr (Some v), p')"
        "v \<noteq> []" "json_Unmarshal r v = Some e" "expired (time_Parse r) now e"
      and t: "HttpClient_Do r (httpClient w) (revalidation (Some e) req) = (Inr resp, t')"
      and s: "resp_StatusCode resp = 304" for v p' e resp t'
  proof -
    let ?wr = "w\<lparr>provider := p', calls := calls w @ [ProviderGet (key r req)]\<rparr>"
    let ?h = "(case map_of (Headers e) ''Last-Modified'' of
               None \<Rightarrow> (case map_of (Headers e) ''Expires'' of
                          None \<Rightarrow> resp_Header resp
                        | Some expires \<Rightarrow> Header_Set (resp_Header resp) ''Expires'' expires)
             | Some lastModified \<Rightarrow>
                 Header_Set (case map_of (Headers e) ''Expires'' of
                          None \<Rightarrow> resp_Header resp
                        | Some expires \<Rightarrow> Header_Set (resp_Header resp) ''Expires'' expires)
                     ''Last-Modified'' lastModified)"
    have t1: "HttpClient_Do r (httpClient ?wr) (revalidation (Some e) req) = (Inr resp, t')"
      using t by simp
    have d: "Do_result r now req w = Inr (resp\<lparr>resp_Header := ?h, resp_Body := Reader (Data e)\<rparr>)"
      unfolding Do_result_def Do_expired [OF assms(1) f g]
      by (rule Do_fetch_304_some [OF assms(2) t1 s])
    have m: "map_of ?h k =
                     (if (k = ''Expires'' \<or> k = ''Last-Modified'') \<and> map_of (Headers e) k \<noteq> None
                      then map_option (\<lambda>x. [x]) (map_of (Headers e) k)
                      else map_of (resp_Header resp) k)" for k
      by (auto simp: map_of_Header_Set split: option.splits)
    show ?thesis using d m s by (intro exI [of _ ?h]) simp
  qed
  show ?thesis using a b by blast
qed

text \<open>
  An empty provider, then a provider that holds the expired entry: the origin's
  \<^verbatim>\<open>Expires\<close> of 2027 gives way to the entry's of 2025.
\<close>

theorem C3_not_modified_witness:
  "Do_result demo 1750000000 (get ''http://example.com/'' [])
       (world_with [] [Inr origin_304])
     = Inl (Error (errors_New ''no cached entry to return'')) \<and>
   (\<exists>h. Do_result demo 1750000000 (get ''http://example.com/'' [])
           (world_with [(''http://example.com/'', [2])] [Inr origin_304])
         = Inr (origin_304\<lparr>resp_Header := h, resp_Body := Reader hello\<rparr>) \<and>
        map_of h ''Expires'' = Some [''Wed, 01 Jan 2025 00:00:00 GMT''])"
proof -
  let ?req = "get ''http://example.com/'' []"
  let ?emp = "world_with [] [Inr origin_304]"
  let ?held = "world_with [(''http://example.com/'', [2])] [Inr origin_304]"
  have h: "Method ?req = ''GET''" "\<not> OnlyCached (Ctx ?req)"
    by (simp_all add: engine_defs demo_defs)
  have a: "(IgnoreCache (Ctx ?req) \<or>
         (\<exists>v p'. provider_Get demo (provider ?emp) (Ctx ?req) (key demo ?req) = (Inr v, p') \<and>
                  (len v = 0 \<or> json_Unmarshal demo (the v) = None))) \<and>
        HttpClient_Do demo (httpClient ?emp) ?req = (Inr origin_304, []) \<and>
        resp_StatusCode origin_304 = 304"
    by (simp add: engine_defs demo_defs)
  have b: "\<not> IgnoreCache (Ctx ?req) \<and> \<not> IgnoreExpired (Ctx ?req) \<and>
        provider_Get demo (provider ?held) (Ctx ?req) (key demo ?req) = (Inr (Some [2]), provider ?held) \<and>
        [2 :: byte] \<noteq> [] \<and> json_Unmarshal demo [2] = Some stale_entry \<and>
        expired (time_Parse demo) 1750000000 stale_entry \<and>
        HttpClient_Do demo (httpClient ?held) (revalidation (Some stale_entry) ?req) =
          (Inr origin_304, []) \<and>
        resp_StatusCode origin_304 = 304"
    by (simp add: engine_defs demo_defs)
  have e: "map_of (Headers stale_entry) ''Expires'' = Some ''Wed, 01 Jan 2025 00:00:00 GMT''"
    "Data stale_entry = hello"
    by (simp_all add: stale_entry_def)
  have 1: "Do_result demo 1750000000 ?req ?emp =
      Inl (Error (errors_New ''no cached entry to return''))"
    using a C3_not_modified [where r = demo and w = ?emp and now = 1750000000, OF h] by blast
  obtain h where 2:
    "Do_result demo 1750000000 ?req ?held =
       Inr (origin_304\<lparr>resp_Header := h, resp_Body := Reader (Data stale_entry)\<rparr>)"
    "\<forall>k. map_of h k =
       (if (k = ''Expires'' \<or> k = ''Last-Modified'') \<and> map_of (Headers stale_entry) k \<noteq> None
        then map_option (\<lambda>x. [x]) (map_of (Headers stale_entry) k)
        else map_of (resp_Header origin_304) k)"
    using b C3_not_modified [where r = demo and w = ?held and now = 1750000000, OF h] by blast
  have "map_of h ''Expires'' = Some [''Wed, 01 Jan 2025 00:00:00 GMT'']"
    using 2(2) e(1) by simp
  then show ?thesis using 1 2(1) e(2) by auto
qed

subsection \<open>C4: onlyCached never fetches\<close>



subsection \<open>C5: ignoreExpired serves an expired entry as it is\<close>




subsection \<open>C6: a failed write after a fetch\<close>

text \<open>
  Claim C6 as stated, for every storage write after a transport fetch, fails on the
  304 path: the provider refuses the \<^verbatim>\<open>Set\<close> that re-persists the entry, and
  \<^verbatim>\<open>Do\<close> still returns the reconciled response.
\<close>

theorem C6_write_failure_counterexample:
  "Do_result demo_readonly 1750000000 (get ''http://example.com/'' [])
       (world_with [(''http://example.com/'', [2])] [Inr origin_304])
     = Inr (origin_304\<lparr>resp_Header := [(''Expires'', [''Wed, 01 Jan 2025 00:00:00 GMT''])],
                       resp_Body := Reader hello\<rparr>) \<and>
   new_calls (world_with [(''http://example.com/'', [2])] [Inr origin_304])
     (Do_world demo_readonly 1750000000 (get ''http://example.com/'' [])
        (world_with [(''http://example.com/'', [2])] [Inr origin_304]))
     = [ProviderGet ''http://example.com/'',
        HttpDo ((get ''http://example.com/'' [])\<lparr>Header := [(''If-None-Match'', [''abcd''])]\<rparr>)
          (Inr origin_304),
        ProviderSet ''http://example.com/'' [2] 0 (Some (errors_New ''READONLY''))]"
  by (simp add: engine_defs demo_defs)

text \<open>
  Claim C6, amended. In any run of \<^verbatim>\<open>Do\<close>, when the transport has answered with a
  status other than 304 and the provider's \<^verbatim>\<open>Set\<close> that follows fails with an error,
  \<^verbatim>\<open>Do\<close> returns no response but that error, wrapped by \<^verbatim>\<open>write\<close>, \<^verbatim>\<open>store\<close> and
  \<^verbatim>\<open>Do\<close> in turn.
\<close>

theorem C6_store_write_failure_surfaces:
  assumes "HttpDo q (Inr resp) \<in> set (new_calls w (Do_world r now req w))"
    and "resp_StatusCode resp \<noteq> 304"
    and "ProviderSet k v expiry (Some err) \<in> set (new_calls w (Do_world r now req w))"
  shows "Do_result r now req w =
     Inl (Error (fmt_Errorf ''r.store(): ''
       (fmt_Errorf ''r.write(): '' (fmt_Errorf ''provider.Set(): '' err))))"
proof (cases "Method req \<noteq> ''GET''")
  case True
  from Do_run [of r now req w] True
  have "new_calls w (Do_world r now req w) =
      [HttpDo req (fst (HttpClient_Do r (httpClient w) req))]"
    by (auto simp: new_calls_def)
  then show ?thesis using assms(3) by simp
next
  case False
  from Do_run [of r now req w] False obtain pre post where
    c: "calls (Do_world r now req w) = calls w @ pre @ post"
      "pre = (if IgnoreCache (Ctx req) then []
               else [ProviderGet (key r req)])"
      "fetch_tail r req w (Do_result r now req w) post"
    by auto
  have n: "new_calls w (Do_world r now req w) = pre @ post"
    using c(1) by (simp add: new_calls_def)
  have p: "HttpDo q (Inr resp) \<in> set post" "ProviderSet k v expiry (Some err) \<in> set post"
    using assms(1,3) c(2) by (auto simp: n split: if_splits)
  then have "post \<noteq> []" by auto
  then obtain entry tres ys where
    t: "post = HttpDo (revalidation entry req) tres # ys"
      "set_tail (key r req) ys (\<lambda>err. \<forall>resp. tres = Inr resp \<and> resp_StatusCode resp \<noteq> 304 \<longrightarrow>
            Do_result r now req w = Inl (Error (fmt_Errorf ''r.store(): ''
                   (fmt_Errorf ''r.write(): '' (fmt_Errorf ''provider.Set(): '' err)))))"
    using c(3) by (auto simp: fetch_tail_def)
  from p(2) t(1) have "ProviderSet k v expiry (Some err) \<in> set ys" by simp
  then obtain bs where
    ys: "ys = [ProviderSet (key r req) bs 0 (Some err)]"
      "\<forall>resp. tres = Inr resp \<and> resp_StatusCode resp \<noteq> 304 \<longrightarrow>
            Do_result r now req w = Inl (Error (fmt_Errorf ''r.store(): ''
                   (fmt_Errorf ''r.write(): '' (fmt_Errorf ''provider.Set(): '' err))))"
    using t(2) by (auto simp: set_tail_def)
  from p(1) t(1) ys(1) have "tres = Inr resp" by simp
  then show ?thesis using ys(2) assms(2) by blast
qed

text \<open>A miss, a fetch that succeeds, and a provider that refuses the write.\<close>

theorem C6_store_write_failure_witness:
  "Do_result demo_readonly 1750000000 (get ''http://example.com/'' [])
       (world_with [] [Inr origin_200])
     = Inl (Error (fmt_Errorf ''r.store(): ''
         (fmt_Errorf ''r.write(): '' (fmt_Errorf ''provider.Set(): '' (errors_New ''READONLY'')))))"
proof -
  let ?req = "get ''http://example.com/'' []"
  let ?w = "world_with [] [Inr origin_200] :: (MemoryProvider, script) world"
  have n: "new_calls ?w (Do_world demo_readonly 1750000000 ?req ?w) =
      [ProviderGet ''http://example.com/'',
       HttpDo ?req (Inr origin_200),
       ProviderSet ''http://example.com/'' [3] 0 (Some (errors_New ''READONLY''))]"
    by (simp add: engine_defs demo_defs)
  have h: "HttpDo ?req (Inr origin_200) \<in>
             set (new_calls ?w (Do_world demo_readonly 1750000000 ?req ?w))"
    "resp_StatusCode origin_200 \<noteq> 304"
    "ProviderSet ''http://example.com/'' [3] 0 (Some (errors_New ''READONLY'')) \<in>
             set (new_calls ?w (Do_world demo_readonly 1750000000 ?req ?w))"
    by (simp_all add: n) (simp add: origin_200_def)
  show ?thesis by (rule C6_store_write_failure_surfaces [OF h])
qed

subsection \<open>C7: freshness comes from the Expires header alone\<close>

text \<open>
  Claim C7. An entry without an \<^verbatim>\<open>Expires\<close> header is expired; so is one whose
  \<^verbatim>\<open>Expires\<close> value does not parse; otherwise the entry is expired exactly when the
  parsed instant is before the current one. Two entries with the same \<^verbatim>\<open>Expires\<close>
  header are expired together, whatever their other fields.
\<close>

theorem C7_expired_from_Expires_only:
  "(map_of (Headers e) ''Expires'' = None \<longrightarrow> expired parse now e) \<and>
   (\<forall>s. map_of (Headers e) ''Expires'' = Some s \<and> parse s = None \<longrightarrow> expired parse now e) \<and>
   (\<forall>s t. map_of (Headers e) ''Expires'' = Some s \<and> parse s = Some t \<longrightarrow>
      expired parse now e = (t < now)) \<and>
   (\<forall>e'. map_of (Headers e') ''Expires'' = map_of (Headers e) ''Expires'' \<longrightarrow>
      expired parse now e' = expired parse now e)"
  by (simp add: expired_def)

theorem C7_expired_witness:
  "expired dates 1750000000 \<lparr> Ts = 0, StatusCode = 200, Data = [], Headers = [] \<rparr> \<and>
   expired dates 1750000000
     \<lparr> Ts = 0, StatusCode = 200, Data = [], Headers = [(''Expires'', ''tomorrow'')] \<rparr> \<and>
   \<not> expired dates 1750000000 fresh_entry \<and>
   \<not> expired dates 1767225600 fresh_entry \<and>
   expired dates 1767225601 fresh_entry \<and>
   expired dates 1750000000 (fresh_entry\<lparr>Data := [], StatusCode := 404\<rparr>) =
     expired dates 1750000000 fresh_entry"
proof -
  let ?none = "\<lparr> Ts = 0, StatusCode = 200, Data = [], Headers = [] \<rparr>"
  let ?bad = "\<lparr> Ts = 0, StatusCode = 200, Data = [], Headers = [(''Expires'', ''tomorrow'')] \<rparr>"
  have a: "map_of (Headers ?none) ''Expires'' = None" by simp
  have b: "map_of (Headers ?bad) ''Expires'' = Some ''tomorrow'' \<and> dates ''tomorrow'' = None"
    by (simp add: dates_def)
  have c: "map_of (Headers fresh_entry) ''Expires'' = Some ''Thu, 01 Jan 2026 00:00:00 GMT'' \<and>
           dates ''Thu, 01 Jan 2026 00:00:00 GMT'' = Some 1767225600"
    by (simp add: fresh_entry_def dates_def)
  have e: "map_of (Headers (fresh_entry\<lparr>Data := [], StatusCode := 404\<rparr>)) ''Expires'' =
           map_of (Headers fresh_entry) ''Expires''" by simp
  have 1: "expired dates 1750000000 ?none"
    using a C7_expired_from_Expires_only [of ?none dates 1750000000] by blast
  have 2: "expired dates 1750000000 ?bad"
    using b C7_expired_from_Expires_only [of ?bad dates 1750000000] by blast
  have 3: "expired dates now fresh_entry = (1767225600 < now)" for now
    using c C7_expired_from_Expires_only [of fresh_entry dates now] by blast
  have 4: "expired dates 1750000000 (fresh_entry\<lparr>Data := [], StatusCode := 404\<rparr>) =
     expired dates 1750000000 fresh_entry"
    using e C7_expired_from_Expires_only [of fresh_entry dates 1750000000] by blast
  show ?thesis using 1 2 4 by (simp add: 3)
qed

subsection \<open>C8: the entry's ETag goes out as If-None-Match\<close>



subsection \<open>C9: bytes that do not decode count as no entry\<close>

text \<open>
  Claim C9. When the provider holds, for the key, bytes that do not decode to an
  entry, \<^verbatim>\<open>read\<close> returns neither an entry nor an error, and the whole run of \<^verbatim>\<open>Do\<close>
  (result, state tag, calls, and the states the provider and the transport are left
  in) is the run it would be if the provider had answered that \<^verbatim>\<open>Get\<close> with nothing.
\<close>

theorem C9_malformed_entry_as_absent:
  assumes "provider_Get r (provider w) (Ctx req) (key r req) = (Inr (Some v), p')"
    and "v \<noteq> []" and "json_Unmarshal r v = None"
  shows "Do r now req w = Do (absent_at r (provider w) (Ctx req) (key r req) p') now req w \<and>
         fst (read r now (Ctx req) (key r req) w) = (None, None)"
proof -
  have l: "len (Some v) = 0 \<or> json_Unmarshal r (the (Some v)) = None"
    using assms(3) by simp
  have d: "Do r now req w = Do (absent_at r (provider w) (Ctx req) (key r req) p') now req w"
    by (rule Do_nil_entry [OF assms(1) l])
  have rd: "fst (read r now (Ctx req) (key r req) w) = (None, None)"
    by (simp add: read_absent [OF assms(1) l])
  show ?thesis using d rd by simp
qed

text \<open>
  Two bytes that the codec does not know are stored: the call fetches and overwrites
  them with the new entry.
\<close>

theorem C9_malformed_entry_witness:
  "Do demo 1750000000 (get ''http://example.com/'' [])
       (world_with [(''http://example.com/'', [9, 9])] [Inr origin_200])
     = Do (absent_at demo
             (provider (world_with [(''http://example.com/'', [9, 9])] [Inr origin_200]))
             [] ''http://example.com/''
             (provider (world_with [(''http://example.com/'', [9, 9])] [Inr origin_200])))
          1750000000 (get ''http://example.com/'' [])
          (world_with [(''http://example.com/'', [9, 9])] [Inr origin_200]) \<and>
   Do_result demo 1750000000 (get ''http://example.com/'' [])
       (world_with [(''http://example.com/'', [9, 9])] [Inr origin_200])
     = Inr (asHttpResponse fetched_entry (get ''http://example.com/'' [])) \<and>
   new_calls (world_with [(''http://example.com/'', [9, 9])] [Inr origin_200])
     (Do_world demo 1750000000 (get ''http://example.com/'' [])
       (world_with [(''http://example.com/'', [9, 9])] [Inr origin_200]))
     = [ProviderGet ''http://example.com/'',
        HttpDo (get ''http://example.com/'' []) (Inr origin_200),
        ProviderSet ''http://example.com/'' [3] 0 None]"
proof -
  let ?req = "get ''http://example.com/'' []"
  let ?w = "world_with [(''http://example.com/'', [9, 9])] [Inr origin_200]"
  have h: "provider_Get demo (provider ?w) (Ctx ?req) (key demo ?req) =
      (Inr (Some [9, 9]), provider ?w)"
    "[9, 9 :: byte] \<noteq> []" "json_Unmarshal demo [9, 9] = None"
    by (simp_all add: engine_defs demo_defs)
  have k: "Ctx ?req = []" "key demo ?req = ''http://example.com/''"
    by (simp_all add: engine_defs demo_defs)
  have 1: "Do demo 1750000000 ?req ?w =
      Do (absent_at demo (provider ?w) (Ctx ?req) (key demo ?req) (provider ?w))
        1750000000 ?req ?w"
    using C9_malformed_entry_as_absent [OF h] by blast
  have 2: "Do_result demo 1750000000 ?req ?w = Inr (asHttpResponse fetched_entry ?req)"
    by (simp add: engine_defs demo_defs)
  have 3: "new_calls ?w (Do_world demo 1750000000 ?req ?w) =
      [ProviderGet ''http://example.com/'', HttpDo ?req (Inr origin_200),
       ProviderSet ''http://example.com/'' [3] 0 None]"
    by (simp add: engine_defs demo_defs)
  show ?thesis using 1 2 3 by (simp only: k simp_thms)
qed

subsection \<open>C10: expiry zero on every write, and an empty value is a miss\<close>

text \<open>
  Claim C10. Every \<^verbatim>\<open>Set\<close> that a run of \<^verbatim>\<open>Do\<close> makes on the provider, after a full
  fetch or after a 304, has expiry zero. When the provider's \<^verbatim>\<open>Get\<close> returns a slice
  of length zero that is not \<^verbatim>\<open>nil\<close>, \<^verbatim>\<open>read\<close> returns neither an entry nor an error,
  and the whole run of \<^verbatim>\<open>Do\<close> is the run it would be if that \<^verbatim>\<open>Get\<close> had returned
  \<^verbatim>\<open>nil\<close>.
\<close>

theorem C10_zero_expiry_and_empty_value:
  "(\<forall>k v expiry res.
      ProviderSet k v expiry res \<in> set (new_calls w (Do_world r now req w)) \<longrightarrow> expiry = 0) \<and>
   (\<forall>p'. provider_Get r (provider w) (Ctx req) (key r req) = (Inr (Some []), p') \<longrightarrow>
      Do r now req w = Do (absent_at r (provider w) (Ctx req) (key r req) p') now req w \<and>
      fst (read r now (Ctx req) (key r req) w) = (None, None))"
proof -
  have z: "list_all ttl_zero (new_calls w (Do_world r now req w))"
  proof (cases "Method req \<noteq> ''GET''")
    case True
    from Do_run [of r now req w] True show ?thesis by (auto simp: new_calls_def)
  next
    case False
    from Do_run [of r now req w] False obtain pre post where
      c: "calls (Do_world r now req w) = calls w @ pre @ post"
        "pre = (if IgnoreCache (Ctx req) then [] else [ProviderGet (key r req)])"
        "fetch_tail r req w (Do_result r now req w) post"
      by auto
    have "list_all ttl_zero post"
      using c(3) by (auto simp: fetch_tail_def dest: set_tail_filters)
    then show ?thesis using c(1,2) by (simp add: new_calls_def)
  qed
  have 1: "expiry = 0"
    if "ProviderSet k v expiry res \<in> set (new_calls w (Do_world r now req w))" for k v expiry res
    using z that by (auto simp: list_all_iff)
  have 2: "Do r now req w = Do (absent_at r (provider w) (Ctx req) (key r req) p') now req w \<and>
      fst (read r now (Ctx req) (key r req) w) = (None, None)"
    if g: "provider_Get r (provider w) (Ctx req) (key r req) = (Inr (Some []), p')" for p'
  proof -
    have l: "len (Some []) = 0 \<or> json_Unmarshal r (the (Some [])) = None"
      by (simp add: len_def)
    show ?thesis using Do_nil_entry [OF g l] read_absent [OF g l] by simp
  qed
  show ?thesis using 1 2 by blast
qed

text \<open>
  A store after a full fetch and a re-persist after a 304, both with expiry zero; the
  first starts from an empty value stored under the key.
\<close>

theorem C10_zero_expiry_witness:
  "new_calls (world_with [(''http://example.com/'', [])] [Inr origin_200])
     (Do_world demo 1750000000 (get ''http://example.com/'' [])
       (world_with [(''http://example.com/'', [])] [Inr origin_200]))
     = [ProviderGet ''http://example.com/'',
        HttpDo (get ''http://example.com/'' []) (Inr origin_200),
        ProviderSet ''http://example.com/'' [3] 0 None] \<and>
   new_calls (world_with [(''http://example.com/'', [2])] [Inr origin_304])
     (Do_world demo 1750000000 (get ''http://example.com/'' [])
       (world_with [(''http://example.com/'', [2])] [Inr origin_304]))
     = [ProviderGet ''http://example.com/'',
        HttpDo ((get ''http://example.com/'' [])\<lparr>Header := [(''If-None-Match'', [''abcd''])]\<rparr>)
          (Inr origin_304),
        ProviderSet ''http://example.com/'' [2] 0 None] \<and>
   Do demo 1750000000 (get ''http://example.com/'' [])
       (world_with [(''http://example.com/'', [])] [Inr origin_200])
     = Do (absent_at demo
             (provider (world_with [(''http://example.com/'', [])] [Inr origin_200]))
             [] ''http://example.com/''
             (provider (world_with [(''http://example.com/'', [])] [Inr origin_200])))
          1750000000 (get ''http://example.com/'' [])
          (world_with [(''http://example.com/'', [])] [Inr origin_200])"
proof -
  let ?req = "get ''http://example.com/'' []"
  let ?w = "world_with [(''http://example.com/'', [])] [Inr origin_200]"
  let ?v = "world_with [(''http://example.com/'', [2])] [Inr origin_304]"
  have n: "new_calls ?w (Do_world demo 1750000000 ?req ?w) =
      [ProviderGet ''http://example.com/'', HttpDo ?req (Inr origin_200),
       ProviderSet ''http://example.com/'' [3] 0 None]"
    by (simp add: engine_defs demo_defs)
  have m: "new_calls ?v (Do_world demo 1750000000 ?req ?v) =
      [ProviderGet ''http://example.com/'',
       HttpDo (?req\<lparr>Header := [(''If-None-Match'', [''abcd''])]\<rparr>) (Inr origin_304),
       ProviderSet ''http://example.com/'' [2] 0 None]"
    by (simp add: engine_defs demo_defs)
  have g: "provider_Get demo (provider ?w) (Ctx ?req) (key demo ?req) =
      (Inr (Some []), provider ?w)"
    by (simp add: engine_defs demo_defs)
  have k: "Ctx ?req = []" "key demo ?req = ''http://example.com/''"
    by (simp_all add: engine_defs demo_defs)
  have 1: "Do demo 1750000000 ?req ?w =
      Do (absent_at demo (provider ?w) (Ctx ?req) (key demo ?req) (provider ?w))
        1750000000 ?req ?w"
    using g C10_zero_expiry_and_empty_value [of ?w demo 1750000000 ?req] by blast
  show ?thesis using n m 1 by (simp only: k simp_thms)
qed

end
